theory Spec2Isabelle
  imports Main
begin

section \<open>Python strings\<close>

text \<open>
  A Python \<open>str\<close> is a sequence of Unicode code points; \<open>len\<close>, slicing, \<open>strip\<close>,
  \<open>lower\<close>, \<open>split\<close> and \<open>startswith\<close> all work on code points. A code point is a
  natural number here and a \<open>str\<close> a list of them; \<open>py\<close> gives the code points of an
  ASCII literal, and the symbols of the program's messages that lie outside ASCII are
  written as their code points.
\<close>

type_synonym pystr = "nat list"

definition py :: "string \<Rightarrow> pystr" where
  "py s = map of_char s"

text \<open>
  \<open>str.isspace\<close> on one code point: the code points that \<open>str.strip()\<close> without an
  argument removes.
\<close>

definition isspace :: "nat \<Rightarrow> bool" where
  "isspace c \<longleftrightarrow>
     (9 \<le> c \<and> c \<le> 13) \<or> (28 \<le> c \<and> c \<le> 32) \<or> c = 133 \<or> c = 160 \<or> c = 5760 \<or>
     (8192 \<le> c \<and> c \<le> 8202) \<or> c = 8232 \<or> c = 8233 \<or> c = 8239 \<or> c = 8287 \<or> c = 12288"

definition strip :: "pystr \<Rightarrow> pystr" where
  "strip s = rev (dropWhile isspace (rev (dropWhile isspace s)))"

text \<open>
  \<open>str.lower\<close>, code point by code point. The table is Python's for the code points up
  to U+00FF (A to Z, and U+00C0 to U+00DE without U+00D7). A code point above U+00FF is left
  as it is: Python maps many of them, but the image of none of them consists of characters
  of the words \<open>exit\<close>, \<open>help\<close>, \<open>status\<close>, \<open>create\<close>, \<open>read\<close>, \<open>run\<close> or of the space
  (U+0130 gives \<open>i\<close> followed by U+0307), so that the comparisons of the loop with these
  words come out the same.
\<close>

definition lower_cp :: "nat \<Rightarrow> nat" where
  "lower_cp c =
     (if 65 \<le> c \<and> c \<le> 90 then c + 32
      else if 192 \<le> c \<and> c \<le> 222 \<and> c \<noteq> 215 then c + 32
      else c)"

definition lower :: "pystr \<Rightarrow> pystr" where
  "lower s = map lower_cp s"

definition startswith :: "pystr \<Rightarrow> pystr \<Rightarrow> bool" where
  "startswith s p \<longleftrightarrow> take (length p) s = p"

text \<open>\<open>s.split(' ', 1)\<close>: at most one split, at the first space (code point 32).\<close>

definition split_space_1 :: "pystr \<Rightarrow> pystr list" where
  "split_space_1 s =
     (if 32 \<in> set s
      then [takeWhile (\<lambda>c. c \<noteq> 32) s, tl (dropWhile (\<lambda>c. c \<noteq> 32) s)]
      else [s])"

text \<open>\<open>" ".join(xs)\<close>.\<close>

fun join_space :: "pystr list \<Rightarrow> pystr" where
  "join_space [] = []"
| "join_space [x] = x"
| "join_space (x # y # ys) = x @ [32] @ join_space (y # ys)"

text \<open>\<open>str(n)\<close> of a non-negative integer, and \<open>str(b)\<close> of a boolean.\<close>

fun str_of_nat :: "nat \<Rightarrow> pystr" where
  "str_of_nat n = (if n < 10 then [48 + n] else str_of_nat (n div 10) @ [48 + n mod 10])"

declare str_of_nat.simps [simp del]

definition str_of_bool :: "bool \<Rightarrow> pystr" where
  "str_of_bool b = (if b then py ''True'' else py ''False'')"


section \<open>Exceptions, collaborators and observable events\<close>

text \<open>
  What a call can raise, by the classes the loop's \<open>except\<close> clauses tell apart:
  \<open>KeyboardInterrupt\<close>; an instance of \<open>Exception\<close>, with its \<open>str(e)\<close>; and the other
  classes under \<open>BaseException\<close> that are not under \<open>Exception\<close> (\<open>SystemExit\<close>,
  \<open>GeneratorExit\<close>), which \<open>except Exception\<close> does not catch.
\<close>

datatype py_exc = KeyboardInterrupt | Exception pystr | Other_BaseException

text \<open>
  Modelled from the spec: the shapes of the values the external collaborators return
  (\<open>src.agent\<close>, \<open>tools.file_operations\<close>, \<open>tools.cli_operations\<close> are not part of the
  source). A task result has a textual \<open>status\<close>, a sequence of \<open>steps\<close> of which only the
  length is used, and a \<open>final_result\<close> that is only printed; a command result has a
  boolean \<open>success\<close> and a \<open>stdout\<close> that \<open>result.get('stdout')\<close> may find absent; the
  agent status is a mapping, iterated in order; the file operations return a message.
\<close>

record task_result =
  status :: pystr
  steps :: "pystr list"
  final_result :: pystr

record command_result =
  success :: bool
  stdout :: "pystr option"

text \<open>
  The collaborators are parameters. Each is an arbitrary stateful procedure: it takes
  the state of the world \<open>'w\<close>, returns a value or raises, and leaves a new state.
\<close>

record 'w collaborators =
  execute_autonomous :: "pystr \<Rightarrow> 'w \<Rightarrow> (py_exc + task_result) \<times> 'w"
  get_status :: "'w \<Rightarrow> (py_exc + (pystr \<times> pystr) list) \<times> 'w"
  create_file :: "pystr \<Rightarrow> pystr \<Rightarrow> 'w \<Rightarrow> (py_exc + pystr) \<times> 'w"
  read_file :: "pystr \<Rightarrow> 'w \<Rightarrow> (py_exc + pystr) \<times> 'w"
  execute_command :: "pystr \<Rightarrow> 'w \<Rightarrow> (py_exc + command_result) \<times> 'w"

text \<open>
  What the program does that can be observed, in order: a \<open>print\<close> with its argument,
  a call of \<open>input\<close> with its prompt, and each call of a collaborator with its arguments.
\<close>

datatype event =
    Print pystr
  | Input_prompt pystr
  | Call_execute_autonomous pystr
  | Call_get_status
  | Call_create_file pystr pystr
  | Call_read_file pystr
  | Call_execute_command pystr


section \<open>The texts the program prints\<close>

definition dashes :: pystr where
  "dashes = replicate 60 45"

definition prompt :: pystr where
  "prompt = [10, 127919] @ py '' SuperNjagu> ''"

definition goodbye :: pystr where
  "goodbye = [128075] @ py '' Goodbye!''"

definition interrupted_text :: pystr where
  "interrupted_text = [10, 10, 128075] @ py '' Interrupted. Type 'exit' to quit.''"

definition error_text :: "pystr \<Rightarrow> pystr" where
  "error_text m = [10, 10060] @ py '' Error: '' @ m"

definition help_text :: pystr where
  "help_text =
     [10, 128218] @ py '' SuperNjagu Agent Commands:'' @ [10, 10, 129302] @
     py '' Autonomous Tasks:'' @ [10] @
     py ''  Any text input is treated as a task to be executed autonomously'' @ [10] @
     py ''  Example: '' @ [34] @ py ''Create a Python web scraper for news'' @ [34, 10, 10, 128193] @
     py '' File Operations:'' @ [10] @
     py ''  create <content>     - Create a file with content'' @ [10] @
     py ''  read <filename>      - Read file contents'' @ [10, 10, 9889] @
     py '' CLI Operations:'' @ [10] @
     py ''  run <command>        - Execute shell command'' @ [10, 10, 8505, 65039] @
     py ''  System Commands:'' @ [10] @
     py ''  status               - Show agent status'' @ [10] @
     py ''  help                 - Show this help'' @ [10] @
     py ''  exit                 - Exit the agent'' @ [10, 10, 128161] @
     py '' Tip: The agent will autonomously break down complex tasks,'' @ [10] @
     py ''     execute them step by step, and report progress!'' @ [10]"

definition status_line :: "pystr \<times> pystr \<Rightarrow> pystr" where
  "status_line kv = py ''  '' @ fst kv @ py '': '' @ snd kv"

definition task_banner :: "pystr \<Rightarrow> pystr \<Rightarrow> event list" where
  "task_banner workspace task_description =
     [Print ([10, 128640] @ py '' SuperNjagu Agent - Starting Task''),
      Print ([128203] @ py '' Task: '' @ task_description),
      Print ([127970] @ py '' Workspace: '' @ workspace),
      Print dashes]"

definition task_summary :: "task_result \<Rightarrow> event list" where
  "task_summary result =
     [Print dashes,
      Print ([9989] @ py '' Task Status: '' @ status result),
      Print ([128202] @ py '' Steps Completed: '' @ str_of_nat (length (steps result)))]"

definition interactive_banner :: "event list" where
  "interactive_banner =
     [Print ([10, 129302] @ py '' SuperNjagu Agent - Interactive Mode''),
      Print (py ''Type 'help' for commands, 'exit' to quit''),
      Print dashes]"


section \<open>\<open>SuperNjaguMain.run_task\<close>\<close>

text \<open>
  The banner, the awaited call of the agent, the summary. Nothing wraps the call: when the
  agent raises, the exception leaves \<open>run_task\<close> after the banner, before any summary.
\<close>

definition run_task ::
  "'w collaborators \<Rightarrow> pystr \<Rightarrow> pystr \<Rightarrow> 'w \<Rightarrow> event list \<times> (py_exc + task_result) \<times> 'w" where
  "run_task C workspace task_description w =
     (case execute_autonomous C task_description w of
        (Inl e, w') \<Rightarrow>
          (task_banner workspace task_description @ [Call_execute_autonomous task_description],
           Inl e, w')
      | (Inr result, w') \<Rightarrow>
          (task_banner workspace task_description @ [Call_execute_autonomous task_description]
             @ task_summary result,
           Inr result, w'))"

text \<open>
  \<open>asyncio.run(coro)\<close>. The library refuses to start when an event loop is already
  running in the thread: it raises \<open>RuntimeError\<close> before the coroutine runs at all.
  Otherwise it runs the coroutine to its end and returns or raises what the coroutine does.
\<close>

definition asyncio_run ::
  "bool \<Rightarrow> ('w \<Rightarrow> event list \<times> (py_exc + 'a) \<times> 'w) \<Rightarrow> 'w \<Rightarrow> event list \<times> (py_exc + 'a) \<times> 'w" where
  "asyncio_run loop_running coro w =
     (if loop_running
      then ([], Inl (Exception (py ''asyncio.run() cannot be called from a running event loop'')), w)
      else coro w)"


section \<open>\<open>SuperNjaguMain.interactive_mode\<close>\<close>

text \<open>
  How the \<open>try\<close> block of one iteration ends: it reaches the end of the loop body or
  \<open>continue\<close> (both go to the next iteration), it reaches \<open>break\<close>, or it raises.
\<close>

datatype outcome = Continue | Break | Raised py_exc

text \<open>
  \<open>_, x = user_input.split(' ', 1)\<close>: the unpacking raises \<open>ValueError\<close> unless the split
  gave two parts.
\<close>

definition unpack_2 :: "pystr list \<Rightarrow> py_exc + (pystr \<times> pystr)" where
  "unpack_2 xs =
     (case xs of
        [a, b] \<Rightarrow> Inr (a, b)
      | _ \<Rightarrow> Inl (Exception (py ''not enough values to unpack (expected 2, got 1)'')))"

text \<open>
  Lines 55 to 92: the \<open>if\<close>/\<open>elif\<close> chain on \<open>user_input\<close>, the line as line 53 leaves it
  (read and stripped), in the order of the source.
\<close>

definition dispatch ::
  "bool \<Rightarrow> 'w collaborators \<Rightarrow> pystr \<Rightarrow> pystr \<Rightarrow> 'w \<Rightarrow> event list \<times> outcome \<times> 'w" where
  "dispatch loop_running C workspace user_input w =
     (if user_input = [] then ([], Continue, w)
      else if lower user_input = py ''exit'' then ([Print goodbye], Break, w)
      else if lower user_input = py ''help'' then ([Print help_text], Continue, w)
      else if lower user_input = py ''status'' then
        (case get_status C w of
           (Inl e, w') \<Rightarrow> ([Call_get_status], Raised e, w')
         | (Inr st, w') \<Rightarrow>
             (Call_get_status # Print ([10, 128202] @ py '' Agent Status:'')
                # map (\<lambda>kv. Print (status_line kv)) st,
              Continue, w'))
      else if startswith (lower user_input) (py ''create '') then
        (case unpack_2 (split_space_1 user_input) of
           Inl e \<Rightarrow> ([], Raised e, w)
         | Inr (_, content) \<Rightarrow>
             (case create_file C (py ''user_file.txt'') content w of
                (Inl e, w') \<Rightarrow> ([Call_create_file (py ''user_file.txt'') content], Raised e, w')
              | (Inr result, w') \<Rightarrow>
                  ([Call_create_file (py ''user_file.txt'') content,
                    Print ([10, 9989, 32] @ result)],
                   Continue, w')))
      else if startswith (lower user_input) (py ''read '') then
        (case unpack_2 (split_space_1 user_input) of
           Inl e \<Rightarrow> ([], Raised e, w)
         | Inr (_, filename) \<Rightarrow>
             (case read_file C filename w of
                (Inl e, w') \<Rightarrow> ([Call_read_file filename], Raised e, w')
              | (Inr result, w') \<Rightarrow>
                  ([Call_read_file filename, Print ([10, 128214, 32] @ result)], Continue, w')))
      else if startswith (lower user_input) (py ''run '') then
        (case unpack_2 (split_space_1 user_input) of
           Inl e \<Rightarrow> ([], Raised e, w)
         | Inr (_, command) \<Rightarrow>
             (case execute_command C command w of
                (Inl e, w') \<Rightarrow> ([Call_execute_command command], Raised e, w')
              | (Inr result, w') \<Rightarrow>
                  ([Call_execute_command command,
                    Print ([10, 9889] @ py '' Command Result:''),
                    Print (py ''  Success: '' @ str_of_bool (success result))]
                   @ (case stdout result of
                        None \<Rightarrow> []
                      | Some out \<Rightarrow>
                          if out = [] then []
                          else [Print (py ''  Output: '' @ take 200 out @ py ''...'')]),
                   Continue, w')))
      else
        (case asyncio_run loop_running (run_task C workspace user_input) w of
           (tr, Inl e, w') \<Rightarrow> (tr, Raised e, w')
         | (tr, Inr result, w') \<Rightarrow>
             (tr @ [Print ([10, 10024] @ py '' Result: '' @ final_result result)], Continue, w')))"

text \<open>
  What one call of \<open>input\<close> gives: a line (without its newline), or an exception
  (\<open>KeyboardInterrupt\<close> on an interrupt, \<open>EOFError\<close> at the end of the input).
\<close>

datatype input_event = Line pystr | Input_raises py_exc

text \<open>The \<open>try\<close> block: line 53, then the chain.\<close>

definition try_block ::
  "bool \<Rightarrow> 'w collaborators \<Rightarrow> pystr \<Rightarrow> input_event \<Rightarrow> 'w \<Rightarrow> event list \<times> outcome \<times> 'w" where
  "try_block loop_running C workspace ev w =
     (case ev of
        Input_raises e \<Rightarrow> ([Input_prompt prompt], Raised e, w)
      | Line l \<Rightarrow>
          (case dispatch loop_running C workspace (strip l) w of
             (tr, out, w') \<Rightarrow> (Input_prompt prompt # tr, out, w')))"

text \<open>
  One iteration: the \<open>try\<close> block under its two \<open>except\<close> clauses. An exception of
  neither class leaves the iteration.
\<close>

definition iteration ::
  "bool \<Rightarrow> 'w collaborators \<Rightarrow> pystr \<Rightarrow> input_event \<Rightarrow> 'w \<Rightarrow> event list \<times> outcome \<times> 'w" where
  "iteration loop_running C workspace ev w =
     (case try_block loop_running C workspace ev w of
        (tr, Raised KeyboardInterrupt, w') \<Rightarrow> (tr @ [Print interrupted_text], Continue, w')
      | (tr, Raised (Exception m), w') \<Rightarrow> (tr @ [Print (error_text m)], Continue, w')
      | (tr, out, w') \<Rightarrow> (tr, out, w'))"

text \<open>
  The state of the loop after the inputs given so far: waiting in \<open>input\<close> for the next
  one, stopped by \<open>break\<close>, or left by an exception that no clause caught.
\<close>

datatype loop_state = Awaiting_input | Stopped | Unwound py_exc

fun interactive_loop ::
  "bool \<Rightarrow> 'w collaborators \<Rightarrow> pystr \<Rightarrow> input_event list \<Rightarrow> 'w \<Rightarrow> event list \<times> loop_state \<times> 'w" where
  "interactive_loop loop_running C workspace [] w = ([], Awaiting_input, w)"
| "interactive_loop loop_running C workspace (ev # evs) w =
     (case iteration loop_running C workspace ev w of
        (tr, Continue, w') \<Rightarrow>
          (case interactive_loop loop_running C workspace evs w' of
             (tr2, st, w'') \<Rightarrow> (tr @ tr2, st, w''))
      | (tr, Break, w') \<Rightarrow> (tr, Stopped, w')
      | (tr, Raised e, w') \<Rightarrow> (tr, Unwound e, w'))"

definition interactive_mode ::
  "bool \<Rightarrow> 'w collaborators \<Rightarrow> pystr \<Rightarrow> input_event list \<Rightarrow> 'w \<Rightarrow> event list \<times> loop_state \<times> 'w" where
  "interactive_mode loop_running C workspace evs w =
     (case interactive_loop loop_running C workspace evs w of
        (tr, st, w') \<Rightarrow> (interactive_banner @ tr, st, w'))"


section \<open>\<open>main\<close>\<close>

text \<open>
  \<open>main\<close> is a coroutine: its body runs inside the event loop that \<open>asyncio.run(main())\<close>
  started, so \<open>interactive_mode\<close> is entered with an event loop running. \<open>argv\<close> is
  \<open>sys.argv\<close>, the program's name first. \<open>SuperNjaguMain()\<close> takes the default workspace;
  the collaborators it constructs are the parameter \<open>C\<close>. The result \<open>Stopped\<close> is the
  normal return of \<open>main\<close>.
\<close>

definition main ::
  "'w collaborators \<Rightarrow> pystr list \<Rightarrow> input_event list \<Rightarrow> 'w \<Rightarrow> event list \<times> loop_state \<times> 'w" where
  "main C argv evs w =
     (if length argv > 1
      then (case run_task C (py ''/workspace'') (join_space (tl argv)) w of
              (tr, Inl e, w') \<Rightarrow> (tr, Unwound e, w')
            | (tr, Inr result, w') \<Rightarrow> (tr, Stopped, w'))
      else interactive_mode True C (py ''/workspace'') evs w)"


section \<open>Reading a trace\<close>

text \<open>The calls of \<open>create_file\<close> in a trace, in order, each with its file name and content.\<close>

fun create_file_calls :: "event list \<Rightarrow> (pystr \<times> pystr) list" where
  "create_file_calls [] = []"
| "create_file_calls (Call_create_file name content # tr) = (name, content) # create_file_calls tr"
| "create_file_calls (_ # tr) = create_file_calls tr"

section \<open>Collaborators for concrete runs\<close>

text \<open>
  Two sets of collaborators over a world without state, to evaluate the program on
  concrete inputs: one whose calls all return, one whose calls all raise.
\<close>

definition mock_ok :: "unit collaborators" where
  "mock_ok =
     \<lparr>execute_autonomous = (\<lambda>task w.
        (Inr \<lparr>status = py ''completed'', steps = [py ''plan'', py ''act''],
              final_result = py ''done''\<rparr>, w)),
      get_status = (\<lambda>w. (Inr [(py ''state'', py ''idle'')], w)),
      create_file = (\<lambda>name content w. (Inr (py ''created''), w)),
      read_file = (\<lambda>name w. (Inr (py ''contents''), w)),
      execute_command = (\<lambda>command w. (Inr \<lparr>success = True, stdout = Some (py ''hi'')\<rparr>, w))\<rparr>"

definition mock_failing :: "unit collaborators" where
  "mock_failing =
     \<lparr>execute_autonomous = (\<lambda>task w. (Inl (Exception (py ''agent failed'')), w)),
      get_status = (\<lambda>w. (Inl (Exception (py ''no status'')), w)),
      create_file = (\<lambda>name content w. (Inl (Exception (py ''disk full'')), w)),
      read_file = (\<lambda>name w. (Inl (Exception (py ''no such file'')), w)),
      execute_command = (\<lambda>command w. (Inl KeyboardInterrupt, w))\<rparr>"


section \<open>Strings: the command words and what a matching line looks like\<close>

lemma py_Nil: "py [] = []" by (simp add: py_def)

lemma kw_exit: "py ''exit'' = [101, 120, 105, 116]" by (simp add: py_def)
lemma kw_help: "py ''help'' = [104, 101, 108, 112]" by (simp add: py_def)
lemma kw_status: "py ''status'' = [115, 116, 97, 116, 117, 115]" by (simp add: py_def)
lemma kw_create: "py ''create '' = [99, 114, 101, 97, 116, 101, 32]" by (simp add: py_def)
lemma kw_read: "py ''read '' = [114, 101, 97, 100, 32]" by (simp add: py_def)
lemma kw_run: "py ''run '' = [114, 117, 110, 32]" by (simp add: py_def)

lemmas kw = kw_exit kw_help kw_status kw_create kw_read kw_run

lemma startswith_Nil: "startswith s [] \<longleftrightarrow> True" by (simp add: startswith_def)

lemma startswith_Cons: "startswith s (p # ps) \<longleftrightarrow> (\<exists>xs. s = p # xs \<and> startswith xs ps)"
  by (cases s) (auto simp: startswith_def)

lemma lower_Nil: "lower [] = []" by (simp add: lower_def)
lemma lower_Cons: "lower (x # xs) = lower_cp x # lower xs" by (simp add: lower_def)
lemma lower_eq_Cons: "lower s = p # ps \<longleftrightarrow> (\<exists>x xs. s = x # xs \<and> lower_cp x = p \<and> lower xs = ps)"
  by (cases s) (auto simp: lower_def)
lemma lower_eq_Nil: "lower s = [] \<longleftrightarrow> s = []" by (simp add: lower_def)

lemma lower_cp_space: "lower_cp c = 32 \<longleftrightarrow> c = 32"
  by (auto simp: lower_cp_def)

lemma lower_cp_32: "lower_cp 32 = 32" by (simp add: lower_cp_def)

lemma create_shape:
  assumes "startswith (lower u) (py ''create '')"
  shows "\<exists>a b c d e f rest. u = a # b # c # d # e # f # 32 # rest \<and>
           a \<noteq> 32 \<and> b \<noteq> 32 \<and> c \<noteq> 32 \<and> d \<noteq> 32 \<and> e \<noteq> 32 \<and> f \<noteq> 32"
  using assms
  by (auto simp: kw startswith_Cons startswith_Nil lower_eq_Cons lower_cp_space lower_cp_32)

lemma read_shape:
  assumes "startswith (lower u) (py ''read '')"
  shows "\<exists>a b c d rest. u = a # b # c # d # 32 # rest \<and>
           a \<noteq> 32 \<and> b \<noteq> 32 \<and> c \<noteq> 32 \<and> d \<noteq> 32"
  using assms
  by (auto simp: kw startswith_Cons startswith_Nil lower_eq_Cons lower_cp_space lower_cp_32)

lemma run_shape:
  assumes "startswith (lower u) (py ''run '')"
  shows "\<exists>a b c rest. u = a # b # c # 32 # rest \<and> a \<noteq> 32 \<and> b \<noteq> 32 \<and> c \<noteq> 32"
  using assms
  by (auto simp: kw startswith_Cons startswith_Nil lower_eq_Cons lower_cp_space lower_cp_32)

lemma create_split:
  "startswith (lower u) (py ''create '') \<Longrightarrow> unpack_2 (split_space_1 u) = Inr (take 6 u, drop 7 u)"
  by (drule create_shape) (auto simp: split_space_1_def unpack_2_def)

lemma read_split:
  "startswith (lower u) (py ''read '') \<Longrightarrow> unpack_2 (split_space_1 u) = Inr (take 4 u, drop 5 u)"
  by (drule read_shape) (auto simp: split_space_1_def unpack_2_def)

lemma run_split:
  "startswith (lower u) (py ''run '') \<Longrightarrow> unpack_2 (split_space_1 u) = Inr (take 3 u, drop 4 u)"
  by (drule run_shape) (auto simp: split_space_1_def unpack_2_def)


section \<open>The branches of the chain\<close>

lemma startswith_lower_hd:
  "startswith (lower u) (p # ps) \<Longrightarrow> \<exists>t. lower u = p # t"
  by (auto simp: startswith_Cons)

lemma create_not_keyword:
  assumes "startswith (lower u) (py ''create '')"
  shows "u \<noteq> []" "lower u \<noteq> py ''exit''" "lower u \<noteq> py ''help''" "lower u \<noteq> py ''status''"
  using assms by (auto simp: kw lower_Nil dest!: startswith_lower_hd)

lemma read_not_keyword:
  assumes "startswith (lower u) (py ''read '')"
  shows "u \<noteq> []" "lower u \<noteq> py ''exit''" "lower u \<noteq> py ''help''" "lower u \<noteq> py ''status''"
    "\<not> startswith (lower u) (py ''create '')"
  using assms by (auto simp: kw lower_Nil startswith_Cons)

lemma run_not_keyword:
  assumes "startswith (lower u) (py ''run '')"
  shows "u \<noteq> []" "lower u \<noteq> py ''exit''" "lower u \<noteq> py ''help''" "lower u \<noteq> py ''status''"
    "\<not> startswith (lower u) (py ''create '')" "\<not> startswith (lower u) (py ''read '')"
  using assms by (auto simp: kw lower_Nil startswith_Cons)

lemma dispatch_create:
  assumes "startswith (lower u) (py ''create '')"
  shows "dispatch lr C ws u w =
     (case create_file C (py ''user_file.txt'') (drop 7 u) w of
        (Inl e, w') \<Rightarrow> ([Call_create_file (py ''user_file.txt'') (drop 7 u)], Raised e, w')
      | (Inr result, w') \<Rightarrow>
          ([Call_create_file (py ''user_file.txt'') (drop 7 u), Print ([10, 9989, 32] @ result)],
           Continue, w'))"
  using create_not_keyword [OF assms] create_split [OF assms] assms
  by (simp add: dispatch_def)

lemma dispatch_read:
  assumes "startswith (lower u) (py ''read '')"
  shows "dispatch lr C ws u w =
     (case read_file C (drop 5 u) w of
        (Inl e, w') \<Rightarrow> ([Call_read_file (drop 5 u)], Raised e, w')
      | (Inr result, w') \<Rightarrow>
          ([Call_read_file (drop 5 u), Print ([10, 128214, 32] @ result)], Continue, w'))"
  using read_not_keyword [OF assms] read_split [OF assms] assms
  by (simp add: dispatch_def)

lemma dispatch_run:
  assumes "startswith (lower u) (py ''run '')"
  shows "dispatch lr C ws u w =
     (case execute_command C (drop 4 u) w of
        (Inl e, w') \<Rightarrow> ([Call_execute_command (drop 4 u)], Raised e, w')
      | (Inr result, w') \<Rightarrow>
          ([Call_execute_command (drop 4 u),
            Print ([10, 9889] @ py '' Command Result:''),
            Print (py ''  Success: '' @ str_of_bool (success result))]
           @ (case stdout result of
                None \<Rightarrow> []
              | Some out \<Rightarrow>
                  if out = [] then []
                  else [Print (py ''  Output: '' @ take 200 out @ py ''...'')]),
           Continue, w'))"
  using run_not_keyword [OF assms] run_split [OF assms] assms
  by (simp add: dispatch_def)

lemma dispatch_blank: "dispatch lr C ws [] w = ([], Continue, w)"
  by (simp add: dispatch_def)

lemma exit_nonempty: "lower u = py ''exit'' \<Longrightarrow> u \<noteq> []"
  by (auto simp: kw lower_def)

lemma dispatch_exit: "lower u = py ''exit'' \<Longrightarrow> dispatch lr C ws u w = ([Print goodbye], Break, w)"
  by (frule exit_nonempty) (simp add: dispatch_def)

lemma dispatch_status:
  assumes "lower u = py ''status''"
  shows "dispatch lr C ws u w =
     (case get_status C w of
        (Inl e, w') \<Rightarrow> ([Call_get_status], Raised e, w')
      | (Inr st, w') \<Rightarrow>
          (Call_get_status # Print ([10, 128202] @ py '' Agent Status:'')
             # map (\<lambda>kv. Print (status_line kv)) st,
           Continue, w'))"
proof -
  have "u \<noteq> []" "lower u \<noteq> py ''exit''" "lower u \<noteq> py ''help''"
    using assms by (auto simp: kw lower_def)
  then show ?thesis using assms by (simp add: dispatch_def)
qed

lemma dispatch_task:
  assumes "u \<noteq> []" "lower u \<noteq> py ''exit''" "lower u \<noteq> py ''help''" "lower u \<noteq> py ''status''"
    "\<not> startswith (lower u) (py ''create '')" "\<not> startswith (lower u) (py ''read '')"
    "\<not> startswith (lower u) (py ''run '')"
  shows "dispatch lr C ws u w =
     (case asyncio_run lr (run_task C ws u) w of
        (tr, Inl e, w') \<Rightarrow> (tr, Raised e, w')
      | (tr, Inr result, w') \<Rightarrow>
          (tr @ [Print ([10, 10024] @ py '' Result: '' @ final_result result)], Continue, w'))"
  using assms by (simp add: dispatch_def)

lemma dispatch_Break_iff:
  "fst (snd (dispatch lr C ws u w)) = Break \<longleftrightarrow> lower u = py ''exit''"
proof
  assume "lower u = py ''exit''"
  then show "fst (snd (dispatch lr C ws u w)) = Break" by (simp add: dispatch_exit)
next
  assume "fst (snd (dispatch lr C ws u w)) = Break"
  then show "lower u = py ''exit''"
    by (auto simp: dispatch_def asyncio_run_def run_task_def
        split: if_splits prod.splits sum.splits option.splits)
qed


section \<open>One iteration never lets an \<open>Exception\<close> or an interrupt out\<close>

lemma iteration_no_Exception:
  "fst (snd (iteration lr C ws ev w)) \<noteq> Raised (Exception m)"
  by (simp add: iteration_def split: prod.splits outcome.splits py_exc.splits)

lemma iteration_no_KeyboardInterrupt:
  "fst (snd (iteration lr C ws ev w)) \<noteq> Raised KeyboardInterrupt"
  by (simp add: iteration_def split: prod.splits outcome.splits py_exc.splits)


section \<open>What \<open>strip\<close> leaves\<close>

lemma strip_blank: "\<forall>c\<in>set l. isspace c \<Longrightarrow> strip l = []"
proof -
  assume "\<forall>c\<in>set l. isspace c"
  then have d: "dropWhile isspace l = []" by simp
  show ?thesis by (simp only: strip_def d rev.simps dropWhile.simps)
qed

lemma strip_surrounded:
  assumes a: "\<forall>c\<in>set a. isspace c" and b: "\<forall>c\<in>set b. isspace c"
  shows "strip (a @ s @ b) = strip s"
proof -
  have 1: "dropWhile isspace (a @ s @ b) = dropWhile isspace (s @ b)"
    by (rule dropWhile_append2) (use a in auto)
  show ?thesis
  proof (cases "\<forall>c\<in>set s. isspace c")
    case True
    then have d: "dropWhile isspace (s @ b) = []" "dropWhile isspace s = []"
      using b by auto
    show ?thesis by (simp only: strip_def 1 d)
  next
    case False
    then obtain x where "x \<in> set s" "\<not> isspace x" by blast
    then have 2: "dropWhile isspace (s @ b) = dropWhile isspace s @ b"
      by (simp add: dropWhile_append1)
    have 3: "dropWhile isspace (rev b @ rev (dropWhile isspace s))
        = dropWhile isspace (rev (dropWhile isspace s))"
      by (rule dropWhile_append2) (use b in auto)
    show ?thesis by (simp only: strip_def 1 2 rev_append 3)
  qed
qed

lemma strip_last: "strip l \<noteq> [] \<Longrightarrow> \<not> isspace (last (strip l))"
proof -
  assume "strip l \<noteq> []"
  then have ne: "dropWhile isspace (rev (dropWhile isspace l)) \<noteq> []"
    by (simp add: strip_def)
  have "last (strip l) = hd (dropWhile isspace (rev (dropWhile isspace l)))"
    using ne by (simp add: strip_def last_rev)
  then show ?thesis using hd_dropWhile [OF ne] by simp
qed

lemma isspace_32: "isspace 32" by (simp add: isspace_def)

lemma payload_create:
  assumes "startswith (lower (strip l)) (py ''create '')"
  shows "drop 7 (strip l) \<noteq> [] \<and> \<not> isspace (last (drop 7 (strip l)))"
proof -
  obtain a b c d e f rest where u: "strip l = a # b # c # d # e # f # 32 # rest"
    using create_shape [OF assms] by blast
  then have "strip l \<noteq> []" by simp
  then have "\<not> isspace (last (strip l))" by (rule strip_last)
  then show ?thesis using u isspace_32 by (cases rest) auto
qed

lemma payload_read:
  assumes "startswith (lower (strip l)) (py ''read '')"
  shows "drop 5 (strip l) \<noteq> [] \<and> \<not> isspace (last (drop 5 (strip l)))"
proof -
  obtain a b c d rest where u: "strip l = a # b # c # d # 32 # rest"
    using read_shape [OF assms] by blast
  then have "strip l \<noteq> []" by simp
  then have "\<not> isspace (last (strip l))" by (rule strip_last)
  then show ?thesis using u isspace_32 by (cases rest) auto
qed

lemma payload_run:
  assumes "startswith (lower (strip l)) (py ''run '')"
  shows "drop 4 (strip l) \<noteq> [] \<and> \<not> isspace (last (drop 4 (strip l)))"
proof -
  obtain a b c rest where u: "strip l = a # b # c # 32 # rest"
    using run_shape [OF assms] by blast
  then have "strip l \<noteq> []" by simp
  then have "\<not> isspace (last (strip l))" by (rule strip_last)
  then show ?thesis using u isspace_32 by (cases rest) auto
qed


section \<open>One iteration, by the kind of input\<close>

lemma iteration_Line:
  "iteration lr C ws (Line l) w =
     (case dispatch lr C ws (strip l) w of
        (tr, Raised KeyboardInterrupt, w') \<Rightarrow>
          (Input_prompt prompt # tr @ [Print interrupted_text], Continue, w')
      | (tr, Raised (Exception m), w') \<Rightarrow>
          (Input_prompt prompt # tr @ [Print (error_text m)], Continue, w')
      | (tr, out, w') \<Rightarrow> (Input_prompt prompt # tr, out, w'))"
  by (simp add: iteration_def try_block_def split: prod.splits outcome.splits py_exc.splits)

lemma iteration_Input_raises:
  "iteration lr C ws (Input_raises e) w =
     (case e of
        KeyboardInterrupt \<Rightarrow> ([Input_prompt prompt, Print interrupted_text], Continue, w)
      | Exception m \<Rightarrow> ([Input_prompt prompt, Print (error_text m)], Continue, w)
      | Other_BaseException \<Rightarrow> ([Input_prompt prompt], Raised Other_BaseException, w))"
  by (simp add: iteration_def try_block_def split: py_exc.splits)

lemma iteration_starts_with_prompt:
  "\<exists>tr. fst (iteration lr C ws ev w) = Input_prompt prompt # tr"
  by (cases ev)
     (auto simp: iteration_Line iteration_Input_raises split: prod.splits outcome.splits py_exc.splits)

lemma iteration_Break_iff:
  "fst (snd (iteration lr C ws ev w)) = Break \<longleftrightarrow> (\<exists>l. ev = Line l \<and> lower (strip l) = py ''exit'')"
proof (cases ev)
  case (Line l)
  have "fst (snd (iteration lr C ws (Line l) w)) = Break
      \<longleftrightarrow> fst (snd (dispatch lr C ws (strip l) w)) = Break"
    by (simp add: iteration_Line split: prod.splits outcome.splits py_exc.splits)
  then show ?thesis using Line by (simp add: dispatch_Break_iff)
next
  case (Input_raises e)
  then show ?thesis by (simp add: iteration_Input_raises split: py_exc.splits)
qed

lemma iteration_outcomes:
  "fst (snd (iteration lr C ws ev w)) \<in> {Continue, Break, Raised Other_BaseException}"
proof -
  obtain tr out w' where r: "iteration lr C ws ev w = (tr, out, w')" by (cases "iteration lr C ws ev w") auto
  have "out \<noteq> Raised KeyboardInterrupt" "\<And>m. out \<noteq> Raised (Exception m)"
    using iteration_no_KeyboardInterrupt [of lr C ws ev w] iteration_no_Exception [of lr C ws ev w] r
    by auto
  then show ?thesis using r
    by (cases out) (auto intro: py_exc.exhaust)
qed


section \<open>The file and shell commands\<close>

lemma iteration_create:
  assumes "startswith (lower (strip l)) (py ''create '')"
  shows "iteration lr C ws (Line l) w =
     (case create_file C (py ''user_file.txt'') (drop 7 (strip l)) w of
        (Inl KeyboardInterrupt, w') \<Rightarrow>
          ([Input_prompt prompt, Call_create_file (py ''user_file.txt'') (drop 7 (strip l)),
            Print interrupted_text], Continue, w')
      | (Inl (Exception m), w') \<Rightarrow>
          ([Input_prompt prompt, Call_create_file (py ''user_file.txt'') (drop 7 (strip l)),
            Print (error_text m)], Continue, w')
      | (Inl Other_BaseException, w') \<Rightarrow>
          ([Input_prompt prompt, Call_create_file (py ''user_file.txt'') (drop 7 (strip l))],
           Raised Other_BaseException, w')
      | (Inr result, w') \<Rightarrow>
          ([Input_prompt prompt, Call_create_file (py ''user_file.txt'') (drop 7 (strip l)),
            Print ([10, 9989, 32] @ result)], Continue, w'))"
  by (simp add: iteration_Line dispatch_create [OF assms] split: prod.splits sum.splits py_exc.splits)

lemma iteration_read:
  assumes "startswith (lower (strip l)) (py ''read '')"
  shows "iteration lr C ws (Line l) w =
     (case read_file C (drop 5 (strip l)) w of
        (Inl KeyboardInterrupt, w') \<Rightarrow>
          ([Input_prompt prompt, Call_read_file (drop 5 (strip l)), Print interrupted_text],
           Continue, w')
      | (Inl (Exception m), w') \<Rightarrow>
          ([Input_prompt prompt, Call_read_file (drop 5 (strip l)), Print (error_text m)],
           Continue, w')
      | (Inl Other_BaseException, w') \<Rightarrow>
          ([Input_prompt prompt, Call_read_file (drop 5 (strip l))], Raised Other_BaseException, w')
      | (Inr result, w') \<Rightarrow>
          ([Input_prompt prompt, Call_read_file (drop 5 (strip l)),
            Print ([10, 128214, 32] @ result)], Continue, w'))"
  by (simp add: iteration_Line dispatch_read [OF assms] split: prod.splits sum.splits py_exc.splits)

lemma first_space_create:
  assumes "startswith (lower u) (py ''create '')"
  shows "32 \<notin> set (take 6 u) \<and> u = take 6 u @ 32 # drop 7 u
       \<and> split_space_1 u = [take 6 u, drop 7 u]"
  using create_shape [OF assms] by (auto simp: split_space_1_def)

lemma first_space_read:
  assumes "startswith (lower u) (py ''read '')"
  shows "32 \<notin> set (take 4 u) \<and> u = take 4 u @ 32 # drop 5 u
       \<and> split_space_1 u = [take 4 u, drop 5 u]"
  using read_shape [OF assms] by (auto simp: split_space_1_def)

lemma first_space_run:
  assumes "startswith (lower u) (py ''run '')"
  shows "32 \<notin> set (take 3 u) \<and> u = take 3 u @ 32 # drop 4 u
       \<and> split_space_1 u = [take 3 u, drop 4 u]"
  using run_shape [OF assms] by (auto simp: split_space_1_def)

lemma iteration_run_returns:
  assumes "startswith (lower (strip l)) (py ''run '')"
    and "execute_command C (drop 4 (strip l)) w = (Inr result, w')"
  shows "iteration lr C ws (Line l) w =
     ([Input_prompt prompt, Call_execute_command (drop 4 (strip l)),
       Print ([10, 9889] @ py '' Command Result:''),
       Print (py ''  Success: '' @ str_of_bool (success result))]
      @ (case stdout result of
           None \<Rightarrow> []
         | Some out \<Rightarrow>
             if out = [] then [] else [Print (py ''  Output: '' @ take 200 out @ py ''...'')]),
      Continue, w')"
  using assms(2) by (simp add: iteration_Line dispatch_run [OF assms(1)])

lemma create_file_calls_append:
  "create_file_calls (xs @ ys) = create_file_calls xs @ create_file_calls ys"
  by (induction xs rule: create_file_calls.induct) auto

lemma create_file_calls_prints: "create_file_calls (map (\<lambda>x. Print (f x)) xs) = []"
  by (induction xs) auto

lemma dispatch_create_names:
  "fst ` set (create_file_calls (fst (dispatch lr C ws u w))) \<subseteq> {py ''user_file.txt''}"
  by (simp add: dispatch_def asyncio_run_def run_task_def task_banner_def task_summary_def
      create_file_calls_append create_file_calls_prints
      split: prod.split sum.split option.split)

lemma iteration_create_names:
  "fst ` set (create_file_calls (fst (iteration lr C ws ev w))) \<subseteq> {py ''user_file.txt''}"
proof (cases ev)
  case (Line l)
  obtain tr out w' where d: "dispatch lr C ws (strip l) w = (tr, out, w')"
    by (cases "dispatch lr C ws (strip l) w") auto
  have "fst ` set (create_file_calls tr) \<subseteq> {py ''user_file.txt''}"
    using dispatch_create_names [of lr C ws "strip l" w] d by simp
  then show ?thesis using Line d
    by (auto simp: iteration_Line create_file_calls_append split: outcome.splits py_exc.splits)
next
  case (Input_raises e)
  then show ?thesis by (simp add: iteration_Input_raises split: py_exc.splits)
qed

lemma loop_create_names:
  "fst ` set (create_file_calls (fst (interactive_loop lr C ws evs w))) \<subseteq> {py ''user_file.txt''}"
proof (induction evs arbitrary: w)
  case Nil
  show ?case by simp
next
  case (Cons ev evs)
  obtain tr out w' where i: "iteration lr C ws ev w = (tr, out, w')"
    by (cases "iteration lr C ws ev w") auto
  have tr: "fst ` set (create_file_calls tr) \<subseteq> {py ''user_file.txt''}"
    using iteration_create_names [of lr C ws ev w] i by simp
  show ?case
  proof (cases out)
    case Continue
    obtain tr2 st w2 where r: "interactive_loop lr C ws evs w' = (tr2, st, w2)"
      by (cases "interactive_loop lr C ws evs w'") auto
    have "fst ` set (create_file_calls tr2) \<subseteq> {py ''user_file.txt''}"
      using Cons.IH [of w'] r by simp
    then show ?thesis using tr i r Continue
      by (auto simp: create_file_calls_append)
  next
    case Break
    then show ?thesis using tr i by simp
  next
    case (Raised e)
    then show ?thesis using tr i by simp
  qed
qed

lemma iteration_create_calls:
  assumes "startswith (lower (strip l)) (py ''create '')"
  shows "create_file_calls (fst (iteration lr C ws (Line l) w)) =
           [(py ''user_file.txt'', drop 7 (strip l))]"
  by (simp add: iteration_create [OF assms] split: prod.split sum.split py_exc.split)

lemma iteration_create_outcome:
  assumes "startswith (lower (strip l)) (py ''create '')"
    and "fst (create_file C (py ''user_file.txt'') (drop 7 (strip l)) w) \<noteq> Inl Other_BaseException"
  shows "fst (snd (iteration lr C ws (Line l) w)) = Continue"
  using assms(2)
  by (auto simp: iteration_create [OF assms(1)] split: prod.split sum.split py_exc.split)

lemma two_creates:
  assumes l1: "startswith (lower (strip l1)) (py ''create '')"
    and l2: "startswith (lower (strip l2)) (py ''create '')"
    and ok: "fst (create_file C (py ''user_file.txt'') (drop 7 (strip l1)) w) \<noteq> Inl Other_BaseException"
  shows "create_file_calls (fst (interactive_loop lr C ws [Line l1, Line l2] w)) =
           [(py ''user_file.txt'', drop 7 (strip l1)), (py ''user_file.txt'', drop 7 (strip l2))]"
proof -
  obtain tr1 o1 w1 where i1: "iteration lr C ws (Line l1) w = (tr1, o1, w1)"
    by (cases "iteration lr C ws (Line l1) w") auto
  have o1: "o1 = Continue"
    using iteration_create_outcome [OF l1 ok, of lr ws] i1 by simp
  have c1: "create_file_calls tr1 = [(py ''user_file.txt'', drop 7 (strip l1))]"
    using iteration_create_calls [OF l1, of lr C ws w] i1 by simp
  obtain tr2 o2 w2 where i2: "iteration lr C ws (Line l2) w1 = (tr2, o2, w2)"
    by (cases "iteration lr C ws (Line l2) w1") auto
  have c2: "create_file_calls tr2 = [(py ''user_file.txt'', drop 7 (strip l2))]"
    using iteration_create_calls [OF l2, of lr C ws w1] i2 by simp
  have "fst (interactive_loop lr C ws [Line l1, Line l2] w) = tr1 @ tr2"
    using i1 o1 i2 by (cases o2) simp_all
  then show ?thesis using c1 c2 by (simp add: create_file_calls_append)
qed


section \<open>Non-interactive mode\<close>

text \<open>
  C2. When the process is started with one or more arguments (\<open>sys.argv\<close> is the
  program's name followed by \<open>args\<close>, and \<open>args\<close> is not empty), the arguments are joined
  with single spaces into one task string, the agent's \<open>execute_autonomous\<close> is called
  exactly once, with that string (it is the only call in the run), and when the agent
  returns a result the process prints the status and the number of steps of that result
  and \<open>main\<close> returns. For the arguments \<open>build\<close>, \<open>a\<close>, \<open>calculator\<close> the task string is
  \<open>build a calculator\<close>.
\<close>

theorem C2_arguments_run_one_task:
  assumes "args \<noteq> []"
    and "execute_autonomous C (join_space args) w = (Inr result, w')"
  shows "main C (prog # args) evs w =
           (task_banner (py ''/workspace'') (join_space args)
              @ [Call_execute_autonomous (join_space args),
                 Print dashes,
                 Print ([9989] @ py '' Task Status: '' @ status result),
                 Print ([128202] @ py '' Steps Completed: '' @ str_of_nat (length (steps result)))],
            Stopped, w')
       \<and> join_space [py ''build'', py ''a'', py ''calculator''] = py ''build a calculator''"
  using assms by (simp add: main_def run_task_def task_summary_def py_def)

theorem C2_arguments_run_one_task_witness:
  "[py ''build'', py ''a'', py ''calculator''] \<noteq> []
   \<and> main mock_ok [py ''main.py'', py ''build'', py ''a'', py ''calculator''] [] () =
       (task_banner (py ''/workspace'') (py ''build a calculator'')
          @ [Call_execute_autonomous (py ''build a calculator''),
             Print dashes,
             Print ([9989] @ py '' Task Status: completed''),
             Print ([128202] @ py '' Steps Completed: 2'')],
        Stopped, ())"
  using C2_arguments_run_one_task [of "[py ''build'', py ''a'', py ''calculator'']" mock_ok "()"
      "\<lparr>status = py ''completed'', steps = [py ''plan'', py ''act''], final_result = py ''done''\<rparr>"
      "()" "py ''main.py''" "[]"]
  by (simp add: mock_ok_def py_def str_of_nat.simps)

text \<open>
  C7. In non-interactive mode nothing handles an error of the agent: whatever
  \<open>execute_autonomous\<close> raises leaves \<open>run_task\<close> (after the banner, with no summary
  printed) and leaves \<open>main\<close> uncaught. In interactive mode, by contrast, no \<open>Exception\<close>
  leaves an iteration of the loop, whatever the input and the collaborators.
\<close>

theorem C7_task_error_propagates:
  assumes "args \<noteq> []"
    and "execute_autonomous C (join_space args) w = (Inl e, w')"
  shows "run_task C ws (join_space args) w =
           (task_banner ws (join_space args) @ [Call_execute_autonomous (join_space args)], Inl e, w')
       \<and> main C (prog # args) evs w =
           (task_banner (py ''/workspace'') (join_space args)
              @ [Call_execute_autonomous (join_space args)],
            Unwound e, w')
       \<and> fst (snd (iteration lr C ws ev w0)) \<noteq> Raised (Exception m)"
  using assms by (simp add: main_def run_task_def iteration_no_Exception)

theorem C7_task_error_propagates_witness:
  "[py ''build''] \<noteq> []
   \<and> main mock_failing [py ''main.py'', py ''build''] [] () =
       (task_banner (py ''/workspace'') (py ''build'') @ [Call_execute_autonomous (py ''build'')],
        Unwound (Exception (py ''agent failed'')), ())"
  using C7_task_error_propagates [of "[py ''build'']" mock_failing "()"
      "Exception (py ''agent failed'')" "()" "py ''/workspace''" "py ''main.py''" "[]"]
  by (simp add: mock_failing_def)


section \<open>Evaluating strings on concrete lines\<close>

lemmas py_eval = py_def strip_def isspace_def lower_def lower_cp_def startswith_def

section \<open>Interactive mode: the commands\<close>

text \<open>
  C3. For every input line that, as line 53 holds it (read and stripped), starts with
  \<open>create \<close> in any letter case: the line is split at its first space only (there is no
  space among its first six characters, the seventh is the space, and the content is all
  that follows); \<open>create_file\<close> is called with the fixed name \<open>user_file.txt\<close> and that
  content, before anything else the iteration does. In every run of the loop, whatever the
  inputs, every call of \<open>create_file\<close> names \<open>user_file.txt\<close>; in particular two successive
  \<open>create\<close> commands give two calls on that same name, each with its own content (the
  second takes place unless the first call raised an exception that the loop does not catch).
\<close>

theorem C3_create_fixed_filename:
  assumes "startswith (lower (strip l)) (py ''create '')"
  shows "32 \<notin> set (take 6 (strip l)) \<and> strip l = take 6 (strip l) @ 32 # drop 7 (strip l)
       \<and> (\<exists>tr out w'. iteration lr C ws (Line l) w =
            (Input_prompt prompt # Call_create_file (py ''user_file.txt'') (drop 7 (strip l)) # tr,
             out, w'))
       \<and> fst ` set (create_file_calls (fst (interactive_loop lr C ws evs w0))) \<subseteq> {py ''user_file.txt''}
       \<and> (startswith (lower (strip l2)) (py ''create '')
            \<and> fst (create_file C (py ''user_file.txt'') (drop 7 (strip l)) w) \<noteq> Inl Other_BaseException
          \<longrightarrow> create_file_calls (fst (interactive_loop lr C ws [Line l, Line l2] w)) =
                [(py ''user_file.txt'', drop 7 (strip l)), (py ''user_file.txt'', drop 7 (strip l2))])"
proof -
  have 1: "32 \<notin> set (take 6 (strip l)) \<and> strip l = take 6 (strip l) @ 32 # drop 7 (strip l)"
    using first_space_create [OF assms] by simp
  have 2: "\<exists>tr out w'. iteration lr C ws (Line l) w =
            (Input_prompt prompt # Call_create_file (py ''user_file.txt'') (drop 7 (strip l)) # tr,
             out, w')"
    by (simp add: iteration_create [OF assms] split: prod.splits sum.splits py_exc.splits)
  show ?thesis using 1 2 loop_create_names [of lr C ws evs w0] two_creates [OF assms, of l2 C w lr ws]
    by blast
qed

theorem C3_create_fixed_filename_witness:
  "startswith (lower (strip (py ''create hello world''))) (py ''create '')
   \<and> (\<exists>tr out w'. iteration False mock_ok (py ''/workspace'') (Line (py ''create hello world'')) () =
        (Input_prompt prompt # Call_create_file (py ''user_file.txt'') (py ''hello world'') # tr, out, w'))
   \<and> create_file_calls (fst (interactive_loop False mock_ok (py ''/workspace'')
         [Line (py ''create hello world''), Line (py ''CREATE other text'')] ())) =
       [(py ''user_file.txt'', py ''hello world''), (py ''user_file.txt'', py ''other text'')]"
proof -
  have h: "startswith (lower (strip (py ''create hello world''))) (py ''create '')"
    by (simp add: py_eval)
  have h2: "startswith (lower (strip (py ''CREATE other text''))) (py ''create '')"
    by (simp add: py_eval)
  have ok: "fst (create_file mock_ok (py ''user_file.txt'') (drop 7 (strip (py ''create hello world''))) ())
      \<noteq> Inl Other_BaseException"
    by (simp add: mock_ok_def)
  have p1: "drop 7 (strip (py ''create hello world'')) = py ''hello world''"
    by (simp add: py_eval)
  have p2: "drop 7 (strip (py ''CREATE other text'')) = py ''other text''"
    by (simp add: py_eval)
  show ?thesis
    using C3_create_fixed_filename [OF h, of False mock_ok "py ''/workspace''" "()" "[]" "()"
        "py ''CREATE other text''"] h h2 ok
    unfolding p1 p2 by blast
qed


text \<open>
  C4. For every input line that, as line 53 holds it, starts with \<open>run \<close> in any letter
  case: what follows the first space is passed whole to \<open>execute_command\<close>. When the call
  returns, the iteration prints the header and the \<open>success\<close> boolean; it prints one more
  line exactly when \<open>stdout\<close> is truthy (present and not empty), and that line is the
  first 200 characters of \<open>stdout\<close> followed by three dots, also when \<open>stdout\<close> has 200
  characters or fewer (then all of it, followed by the dots). With \<open>stdout\<close> absent or
  empty nothing more is printed.
\<close>

theorem C4_run_command:
  assumes "startswith (lower (strip l)) (py ''run '')"
    and "execute_command C (drop 4 (strip l)) w = (Inr result, w')"
  shows "32 \<notin> set (take 3 (strip l)) \<and> strip l = take 3 (strip l) @ 32 # drop 4 (strip l)
       \<and> (\<forall>out. stdout result = Some out \<and> out \<noteq> [] \<longrightarrow>
            iteration lr C ws (Line l) w =
              ([Input_prompt prompt, Call_execute_command (drop 4 (strip l)),
                Print ([10, 9889] @ py '' Command Result:''),
                Print (py ''  Success: '' @ str_of_bool (success result)),
                Print (py ''  Output: '' @ take 200 out @ py ''...'')],
               Continue, w')
            \<and> (length out \<le> 200 \<longrightarrow> py ''  Output: '' @ take 200 out @ py ''...''
                  = py ''  Output: '' @ out @ py ''...''))
       \<and> (stdout result = None \<or> stdout result = Some [] \<longrightarrow>
            iteration lr C ws (Line l) w =
              ([Input_prompt prompt, Call_execute_command (drop 4 (strip l)),
                Print ([10, 9889] @ py '' Command Result:''),
                Print (py ''  Success: '' @ str_of_bool (success result))],
               Continue, w'))"
proof -
  have 1: "32 \<notin> set (take 3 (strip l)) \<and> strip l = take 3 (strip l) @ 32 # drop 4 (strip l)"
    using first_space_run [OF assms(1)] by simp
  show ?thesis using 1 by (auto simp: iteration_run_returns [OF assms])
qed

theorem C4_run_command_witness:
  "startswith (lower (strip (py ''run echo hi''))) (py ''run '')
   \<and> iteration False mock_ok (py ''/workspace'') (Line (py ''run echo hi'')) () =
       ([Input_prompt prompt, Call_execute_command (py ''echo hi''),
         Print ([10, 9889] @ py '' Command Result:''),
         Print (py ''  Success: True''),
         Print (py ''  Output: hi...'')],
        Continue, ())"
proof -
  have h: "startswith (lower (strip (py ''run echo hi''))) (py ''run '')"
    by (simp add: py_eval)
  have p: "drop 4 (strip (py ''run echo hi'')) = py ''echo hi''"
    by (simp add: py_eval)
  have e: "execute_command mock_ok (drop 4 (strip (py ''run echo hi''))) () =
      (Inr \<lparr>success = True, stdout = Some (py ''hi'')\<rparr>, ())"
    by (simp add: mock_ok_def)
  have s: "py ''  Success: '' @ str_of_bool True = py ''  Success: True''"
    "py ''  Output: '' @ take 200 (py ''hi'') @ py ''...'' = py ''  Output: hi...''"
    "py ''hi'' \<noteq> []"
    by (simp_all add: py_def str_of_bool_def)
  show ?thesis
    using C4_run_command [OF h e, of False "py ''/workspace''"] h s
    unfolding p by simp
qed

text \<open>
  C5. For every input line that, as line 53 holds it, starts with \<open>read \<close> in any letter
  case: the line is split at its first space (none among the first four characters, the
  fifth is the space) and all that follows, spaces included, is the file name passed to
  \<open>read_file\<close>, unchanged.
\<close>

theorem C5_read_file:
  assumes "startswith (lower (strip l)) (py ''read '')"
  shows "32 \<notin> set (take 4 (strip l)) \<and> strip l = take 4 (strip l) @ 32 # drop 5 (strip l)
       \<and> (\<exists>tr out w'. iteration lr C ws (Line l) w =
            (Input_prompt prompt # Call_read_file (drop 5 (strip l)) # tr, out, w'))"
proof -
  have 1: "32 \<notin> set (take 4 (strip l)) \<and> strip l = take 4 (strip l) @ 32 # drop 5 (strip l)"
    using first_space_read [OF assms] by simp
  have 2: "\<exists>tr out w'. iteration lr C ws (Line l) w =
            (Input_prompt prompt # Call_read_file (drop 5 (strip l)) # tr, out, w')"
    by (simp add: iteration_read [OF assms] split: prod.splits sum.splits py_exc.splits)
  show ?thesis using 1 2 by blast
qed

theorem C5_read_file_witness:
  "startswith (lower (strip (py ''read my notes.txt''))) (py ''read '')
   \<and> (\<exists>tr out w'. iteration False mock_ok (py ''/workspace'') (Line (py ''read my notes.txt'')) () =
        (Input_prompt prompt # Call_read_file (py ''my notes.txt'') # tr, out, w'))"
proof -
  have h: "startswith (lower (strip (py ''read my notes.txt''))) (py ''read '')"
    by (simp add: py_eval)
  have p: "drop 5 (strip (py ''read my notes.txt'')) = py ''my notes.txt''"
    by (simp add: py_eval)
  show ?thesis
    using C5_read_file [OF h, of False mock_ok "py ''/workspace''" "()"] h
    unfolding p by blast
qed


section \<open>Interactive mode: blank lines and surrounding whitespace\<close>

lemma iteration_blank:
  assumes "\<forall>c\<in>set l. isspace c"
  shows "iteration lr C ws (Line l) w = ([Input_prompt prompt], Continue, w)"
  by (simp add: iteration_Line strip_blank [OF assms] dispatch_blank)

lemma iteration_surrounded:
  assumes "\<forall>c\<in>set a. isspace c" and "\<forall>c\<in>set b. isspace c"
  shows "iteration lr C ws (Line (a @ s @ b)) w = iteration lr C ws (Line s) w"
  by (simp add: iteration_Line strip_surrounded [OF assms])

lemma iteration_exit:
  "lower (strip l) = py ''exit'' \<Longrightarrow>
   iteration lr C ws (Line l) w = ([Input_prompt prompt, Print goodbye], Break, w)"
  by (simp add: iteration_Line dispatch_exit)

text \<open>
  C9. For every input line that is empty or consists of whitespace only: the iteration
  does nothing but read the line (the only event is the call of \<open>input\<close> itself, so
  nothing is printed and no collaborator is called, and the world is unchanged), and the
  loop goes on with the next input, which begins with the prompt again.
\<close>

theorem C9_blank_line_ignored:
  assumes "\<forall>c\<in>set l. isspace c"
  shows "iteration lr C ws (Line l) w = ([Input_prompt prompt], Continue, w)
       \<and> interactive_loop lr C ws (Line l # evs) w =
           (case interactive_loop lr C ws evs w of
              (tr, st, w') \<Rightarrow> (Input_prompt prompt # tr, st, w'))
       \<and> (\<exists>tr. fst (iteration lr C ws ev w) = Input_prompt prompt # tr)"
  using iteration_starts_with_prompt [of lr C ws ev w]
  by (simp add: iteration_blank [OF assms] split: prod.splits)

theorem C9_blank_line_ignored_witness:
  "isspace 32 \<and> isspace 9
   \<and> iteration False mock_ok (py ''/workspace'') (Line [32, 9, 32]) () =
       ([Input_prompt prompt], Continue, ())
   \<and> iteration False mock_ok (py ''/workspace'') (Line []) () =
       ([Input_prompt prompt], Continue, ())"
  using C9_blank_line_ignored [of "[32, 9, 32]" False mock_ok "py ''/workspace''" "()" "[]" "Line []"]
    C9_blank_line_ignored [of "[]" False mock_ok "py ''/workspace''" "()" "[]" "Line []"]
  by (simp add: isspace_def)

text \<open>
  C10. The loop strips every input line before it classifies it: whitespace before and
  after a line changes nothing of what the iteration does. So \<open>exit\<close> surrounded by
  whitespace stops the loop; the payload of a \<open>create\<close>, \<open>read\<close> or \<open>run\<close> command is
  taken from the stripped line, is not empty and does not end in whitespace; and a line
  \<open>read notes.txt\<close> followed by spaces passes the file name \<open>notes.txt\<close>. (Whitespace
  inside the line, right after the first space, belongs to the payload: that is C5's
  verbatim remainder, not whitespace at an end of the line.)
\<close>

theorem C10_line_is_stripped:
  assumes "\<forall>c\<in>set a. isspace c" and "\<forall>c\<in>set b. isspace c"
  shows "iteration lr C ws (Line (a @ s @ b)) w = iteration lr C ws (Line s) w
       \<and> iteration lr C ws (Line (a @ py ''exit'' @ b)) w =
           ([Input_prompt prompt, Print goodbye], Break, w)
       \<and> (startswith (lower (strip l)) (py ''create '') \<longrightarrow>
            drop 7 (strip l) \<noteq> [] \<and> \<not> isspace (last (drop 7 (strip l))))
       \<and> (startswith (lower (strip l)) (py ''read '') \<longrightarrow>
            drop 5 (strip l) \<noteq> [] \<and> \<not> isspace (last (drop 5 (strip l))))
       \<and> (startswith (lower (strip l)) (py ''run '') \<longrightarrow>
            drop 4 (strip l) \<noteq> [] \<and> \<not> isspace (last (drop 4 (strip l))))
       \<and> (\<exists>tr out w'. iteration lr C ws (Line (a @ py ''read notes.txt'' @ b)) w =
            (Input_prompt prompt # Call_read_file (py ''notes.txt'') # tr, out, w'))"
proof -
  have e: "lower (strip (py ''exit'')) = py ''exit''" by (simp add: py_eval)
  have 1: "iteration lr C ws (Line (a @ py ''exit'' @ b)) w =
           ([Input_prompt prompt, Print goodbye], Break, w)"
    by (simp add: iteration_surrounded [OF assms] iteration_exit [OF e])
  have r: "startswith (lower (strip (py ''read notes.txt''))) (py ''read '')"
    by (simp add: py_eval)
  have p: "drop 5 (strip (py ''read notes.txt'')) = py ''notes.txt''"
    by (simp add: py_eval)
  have 2: "\<exists>tr out w'. iteration lr C ws (Line (a @ py ''read notes.txt'' @ b)) w =
            (Input_prompt prompt # Call_read_file (py ''notes.txt'') # tr, out, w')"
    unfolding iteration_surrounded [OF assms]
    by (simp add: iteration_read [OF r] p split: prod.splits sum.splits py_exc.splits)
  show ?thesis
    using 1 2 iteration_surrounded [OF assms, of lr C ws s w]
      payload_create [of l] payload_read [of l] payload_run [of l]
    by blast
qed

theorem C10_line_is_stripped_witness:
  "isspace 32
   \<and> iteration False mock_ok (py ''/workspace'') (Line (py ''  exit  '')) () =
       ([Input_prompt prompt, Print goodbye], Break, ())
   \<and> (\<exists>tr out w'. iteration False mock_ok (py ''/workspace'') (Line (py ''read notes.txt   '')) () =
        (Input_prompt prompt # Call_read_file (py ''notes.txt'') # tr, out, w'))"
proof -
  have a: "\<forall>c\<in>set (py ''  ''). isspace c" and b: "\<forall>c\<in>set (py ''   ''). isspace c"
    and n: "\<forall>c\<in>set (py ''''). isspace c"
    by (simp_all add: py_def isspace_def)
  have 1: "py ''  '' @ py ''exit'' @ py ''  '' = py ''  exit  ''"
    and 2: "py '''' @ py ''read notes.txt'' @ py ''   '' = py ''read notes.txt   ''"
    by (simp_all add: py_def)
  show ?thesis
    using C10_line_is_stripped [OF a a, of False mock_ok "py ''/workspace''" "[]" "()" "[]"]
      C10_line_is_stripped [OF n b, of False mock_ok "py ''/workspace''" "[]" "()" "[]"] isspace_32
    unfolding 1 2 by blast
qed


section \<open>Interactive mode: errors and the state of the loop\<close>

lemma loop_Cons_Continue:
  assumes "iteration lr C ws ev w = (tr, Continue, w')"
  shows "interactive_loop lr C ws (ev # evs) w =
     (case interactive_loop lr C ws evs w' of (tr2, st, w'') \<Rightarrow> (tr @ tr2, st, w''))"
  using assms by simp

lemma iteration_of_raise:
  assumes "try_block lr C ws ev w = (tr, Raised (Exception m), w')"
  shows "iteration lr C ws ev w = (tr @ [Print (error_text m)], Continue, w')"
  using assms by (simp add: iteration_def)

lemma iteration_of_interrupt:
  assumes "try_block lr C ws ev w = (tr, Raised KeyboardInterrupt, w')"
  shows "iteration lr C ws ev w = (tr @ [Print interrupted_text], Continue, w')"
  using assms by (simp add: iteration_def)

lemma try_block_status_raises:
  assumes "lower (strip l) = py ''status''" and "get_status C w = (Inl e, w')"
  shows "try_block lr C ws (Line l) w = ([Input_prompt prompt, Call_get_status], Raised e, w')"
  using assms(2) by (simp add: try_block_def dispatch_status [OF assms(1)])

lemma loop_no_Exception:
  "fst (snd (interactive_loop lr C ws evs w)) \<noteq> Unwound (Exception m)"
proof (induction evs arbitrary: w)
  case Nil
  show ?case by simp
next
  case (Cons ev evs)
  obtain tr out w' where i: "iteration lr C ws ev w = (tr, out, w')"
    by (cases "iteration lr C ws ev w") auto
  have ne: "out \<noteq> Raised (Exception m)"
    using iteration_no_Exception [of lr C ws ev w m] i by simp
  show ?case
  proof (cases out)
    case Continue
    then show ?thesis using i Cons.IH [of w'] by (auto split: prod.splits)
  next
    case Break
    then show ?thesis using i by simp
  next
    case (Raised e)
    then show ?thesis using i ne by simp
  qed
qed

lemma loop_no_KeyboardInterrupt:
  "fst (snd (interactive_loop lr C ws evs w)) \<noteq> Unwound KeyboardInterrupt"
proof (induction evs arbitrary: w)
  case Nil
  show ?case by simp
next
  case (Cons ev evs)
  obtain tr out w' where i: "iteration lr C ws ev w = (tr, out, w')"
    by (cases "iteration lr C ws ev w") auto
  have ne: "out \<noteq> Raised KeyboardInterrupt"
    using iteration_no_KeyboardInterrupt [of lr C ws ev w] i by simp
  show ?case
  proof (cases out)
    case Continue
    then show ?thesis using i Cons.IH [of w'] by (auto split: prod.splits)
  next
    case Break
    then show ?thesis using i by simp
  next
    case (Raised e)
    then show ?thesis using i ne by simp
  qed
qed

text \<open>
  C6. In interactive mode every error, that is every instance of \<open>Exception\<close>, raised
  anywhere in the \<open>try\<close> block of an iteration (by \<open>input\<close>, by the chain, or by a
  collaborator) is caught in that iteration: the iteration prints the error line with the
  text of the error, ends normally, and the loop goes on with the remaining inputs. No
  \<open>Exception\<close> ever leaves an iteration or the loop, whatever the inputs and the
  collaborators. In particular an error of \<open>get_status\<close> during \<open>status\<close> is printed and
  the loop continues. (\<open>SystemExit\<close> and the like are not instances of \<open>Exception\<close>; the
  interrupt is the subject of C8.)
\<close>

theorem C6_errors_caught_in_loop:
  assumes "try_block lr C ws ev w = (tr, Raised (Exception m), w')"
  shows "iteration lr C ws ev w = (tr @ [Print (error_text m)], Continue, w')
       \<and> interactive_loop lr C ws (ev # evs) w =
           (case interactive_loop lr C ws evs w' of
              (tr2, st, w'') \<Rightarrow> ((tr @ [Print (error_text m)]) @ tr2, st, w''))
       \<and> fst (snd (iteration lr C ws ev0 w0)) \<noteq> Raised (Exception m0)
       \<and> fst (snd (interactive_loop lr C ws evs0 w0)) \<noteq> Unwound (Exception m0)
       \<and> (lower (strip l) = py ''status'' \<and> get_status C w1 = (Inl (Exception m1), w2) \<longrightarrow>
            iteration lr C ws (Line l) w1 =
              ([Input_prompt prompt, Call_get_status, Print (error_text m1)], Continue, w2))"
proof -
  have 1: "iteration lr C ws ev w = (tr @ [Print (error_text m)], Continue, w')"
    by (rule iteration_of_raise [OF assms])
  have 2: "interactive_loop lr C ws (ev # evs) w =
           (case interactive_loop lr C ws evs w' of
              (tr2, st, w'') \<Rightarrow> ((tr @ [Print (error_text m)]) @ tr2, st, w''))"
    by (rule loop_Cons_Continue [OF 1])
  have 3: "lower (strip l) = py ''status'' \<and> get_status C w1 = (Inl (Exception m1), w2) \<longrightarrow>
            iteration lr C ws (Line l) w1 =
              ([Input_prompt prompt, Call_get_status, Print (error_text m1)], Continue, w2)"
    using iteration_of_raise [OF try_block_status_raises, of l C w1 "m1" w2 lr ws] by simp
  show ?thesis
    using 1 2 3 iteration_no_Exception [of lr C ws ev0 w0 m0] loop_no_Exception [of lr C ws evs0 w0 m0]
    by blast
qed

theorem C6_errors_caught_in_loop_witness:
  "try_block False mock_failing (py ''/workspace'') (Line (py ''status'')) () =
     ([Input_prompt prompt, Call_get_status], Raised (Exception (py ''no status'')), ())
   \<and> interactive_loop False mock_failing (py ''/workspace'') [Line (py ''status''), Line (py ''exit'')] () =
       ([Input_prompt prompt, Call_get_status, Print (error_text (py ''no status'')),
         Input_prompt prompt, Print goodbye], Stopped, ())"
proof -
  have s: "lower (strip (py ''status'')) = py ''status''" by (simp add: py_eval)
  have e: "lower (strip (py ''exit'')) = py ''exit''" by (simp add: py_eval)
  have g: "get_status mock_failing () = (Inl (Exception (py ''no status'')), ())"
    by (simp add: mock_failing_def)
  have t: "try_block False mock_failing (py ''/workspace'') (Line (py ''status'')) () =
     ([Input_prompt prompt, Call_get_status], Raised (Exception (py ''no status'')), ())"
    by (rule try_block_status_raises [OF s g])
  have x: "interactive_loop False mock_failing (py ''/workspace'') [Line (py ''exit'')] () =
     ([Input_prompt prompt, Print goodbye], Stopped, ())"
    by (simp add: iteration_exit [OF e])
  show ?thesis
    using C6_errors_caught_in_loop [OF t, of "[Line (py ''exit'')]"] t x by simp
qed


lemma loop_Stopped_exit:
  "fst (snd (interactive_loop lr C ws evs w)) = Stopped \<Longrightarrow>
   \<exists>l. Line l \<in> set evs \<and> lower (strip l) = py ''exit''"
proof (induction evs arbitrary: w)
  case Nil
  then show ?case by simp
next
  case (Cons ev evs)
  obtain tr out w' where i: "iteration lr C ws ev w = (tr, out, w')"
    by (cases "iteration lr C ws ev w") auto
  show ?case
  proof (cases out)
    case Continue
    then have "fst (snd (interactive_loop lr C ws evs w')) = Stopped"
      using Cons.prems i by (auto split: prod.splits)
    then show ?thesis using Cons.IH [of w'] by auto
  next
    case Break
    then have "\<exists>l. ev = Line l \<and> lower (strip l) = py ''exit''"
      using iteration_Break_iff [of lr C ws ev w] i by simp
    then show ?thesis by auto
  next
    case (Raised e)
    then show ?thesis using Cons.prems i by simp
  qed
qed

lemma loop_without_exit:
  assumes "\<forall>l. Line l \<in> set evs \<longrightarrow> lower (strip l) \<noteq> py ''exit''"
  shows "fst (snd (interactive_loop lr C ws evs w)) \<in> {Awaiting_input, Unwound Other_BaseException}"
proof -
  let ?st = "fst (snd (interactive_loop lr C ws evs w))"
  have "?st \<noteq> Stopped" using loop_Stopped_exit [of lr C ws evs w] assms by blast
  moreover have "?st \<noteq> Unwound KeyboardInterrupt" by (rule loop_no_KeyboardInterrupt)
  moreover have "\<And>m. ?st \<noteq> Unwound (Exception m)" by (rule loop_no_Exception)
  ultimately show ?thesis
    by (cases ?st) (auto intro: py_exc.exhaust)
qed

lemma loop_exit_first:
  "lower (strip l) = py ''exit'' \<Longrightarrow>
   interactive_loop lr C ws (Line l # evs) w = ([Input_prompt prompt, Print goodbye], Stopped, w)"
  by (simp add: iteration_exit)

text \<open>
  C8. The loop as a state machine. An iteration ends in \<open>break\<close> exactly when the input
  is a line that, stripped and in lower case, is \<open>exit\<close>; on that line the loop prints the
  farewell and is stopped, whatever inputs would follow. Every other iteration goes back to
  waiting for input: no iteration ends otherwise than by going on, by \<open>break\<close>, or by
  letting through an exception that is neither a \<open>KeyboardInterrupt\<close> nor an \<open>Exception\<close>
  (a \<open>SystemExit\<close> of a collaborator, which the source has no clause for). An interrupt
  during \<open>input\<close> is caught, its message is printed and the loop goes on, and so is an
  interrupt raised anywhere else in the \<open>try\<close> block. For the loop as a whole: it is
  stopped only if some input line was \<open>exit\<close>, and without such a line it is still waiting
  for input (or was left by an exception of that third kind).
\<close>

theorem C8_loop_state_machine:
  shows "(fst (snd (iteration lr C ws ev w)) = Break
            \<longleftrightarrow> (\<exists>l. ev = Line l \<and> lower (strip l) = py ''exit''))
       \<and> fst (snd (iteration lr C ws ev w)) \<in> {Continue, Break, Raised Other_BaseException}
       \<and> iteration lr C ws (Input_raises KeyboardInterrupt) w =
           ([Input_prompt prompt, Print interrupted_text], Continue, w)
       \<and> (try_block lr C ws ev w = (tr, Raised KeyboardInterrupt, w') \<longrightarrow>
            iteration lr C ws ev w = (tr @ [Print interrupted_text], Continue, w'))
       \<and> (lower (strip l) = py ''exit'' \<longrightarrow>
            interactive_loop lr C ws (Line l # evs) w =
              ([Input_prompt prompt, Print goodbye], Stopped, w))
       \<and> (fst (snd (interactive_loop lr C ws evs w)) = Stopped \<longrightarrow>
            (\<exists>l. Line l \<in> set evs \<and> lower (strip l) = py ''exit''))
       \<and> ((\<forall>l. Line l \<in> set evs \<longrightarrow> lower (strip l) \<noteq> py ''exit'') \<longrightarrow>
            fst (snd (interactive_loop lr C ws evs w)) \<in> {Awaiting_input, Unwound Other_BaseException})"
  using iteration_Break_iff [of lr C ws ev w] iteration_outcomes [of lr C ws ev w]
    iteration_of_interrupt [of lr C ws ev w tr w']
    loop_exit_first [of l lr C ws evs w]
    loop_Stopped_exit [of lr C ws evs w] loop_without_exit [of evs lr C ws w]
  by (simp add: iteration_Input_raises)

theorem C8_loop_state_machine_witness:
  "fst (snd (interactive_loop False mock_failing (py ''/workspace'')
      [Line (py ''''), Line (py ''help''), Line (py ''run ls''), Input_raises KeyboardInterrupt,
       Line (py ''do the work''), Line (py ''status'')] ())) \<in> {Awaiting_input, Unwound Other_BaseException}
   \<and> interactive_loop False mock_failing (py ''/workspace'') [Line (py ''EXIT''), Line (py ''help'')] () =
       ([Input_prompt prompt, Print goodbye], Stopped, ())"
proof -
  let ?evs = "[Line (py ''''), Line (py ''help''), Line (py ''run ls''),
       Input_raises KeyboardInterrupt, Line (py ''do the work''), Line (py ''status'')]"
  have e: "lower (strip (py ''EXIT'')) = py ''exit''" by (simp add: py_eval)
  have n1: "lower (strip (py '''')) \<noteq> py ''exit''" by (simp add: py_eval)
  have n2: "lower (strip (py ''help'')) \<noteq> py ''exit''" by (simp add: py_eval)
  have n3: "lower (strip (py ''run ls'')) \<noteq> py ''exit''" by (simp add: py_eval)
  have n4: "lower (strip (py ''do the work'')) \<noteq> py ''exit''" by (simp add: py_eval)
  have n5: "lower (strip (py ''status'')) \<noteq> py ''exit''" by (simp add: py_eval)
  have n: "\<forall>l. Line l \<in> set ?evs \<longrightarrow> lower (strip l) \<noteq> py ''exit''"
    using n1 n2 n3 n4 n5 by auto
  have a: "(\<forall>l. Line l \<in> set ?evs \<longrightarrow> lower (strip l) \<noteq> py ''exit'') \<longrightarrow>
      fst (snd (interactive_loop False mock_failing (py ''/workspace'') ?evs ()))
        \<in> {Awaiting_input, Unwound Other_BaseException}"
    using C8_loop_state_machine [of False mock_failing "py ''/workspace''" "Line (py ''EXIT'')" "()"
        "[]" "()" "py ''EXIT''" ?evs]
    by (elim conjE) assumption
  have b: "lower (strip (py ''EXIT'')) = py ''exit'' \<longrightarrow>
      interactive_loop False mock_failing (py ''/workspace'') [Line (py ''EXIT''), Line (py ''help'')] () =
       ([Input_prompt prompt, Print goodbye], Stopped, ())"
    using C8_loop_state_machine [of False mock_failing "py ''/workspace''" "Line (py ''EXIT'')" "()"
        "[]" "()" "py ''EXIT''" "[Line (py ''help'')]"]
    by (elim conjE) assumption
  show ?thesis using a b e n by blast
qed


section \<open>Interactive mode: a line that is no command\<close>

text \<open>
  A line that, stripped, is not empty, is none of \<open>exit\<close>, \<open>help\<close>, \<open>status\<close> and starts
  with none of \<open>create \<close>, \<open>read \<close>, \<open>run \<close> reaches the last branch, line 91:
  \<open>asyncio.run(self.run_task(user_input))\<close>. What that does depends on whether an event
  loop is running. When \<open>interactive_mode\<close> is called from plain synchronous code, the task
  runs: banner, the agent called with the stripped line, summary, result. When it is called
  under \<open>main\<close>, which is itself run by \<open>asyncio.run\<close>, the inner \<open>asyncio.run\<close> raises
  \<open>RuntimeError\<close>; the loop's \<open>except Exception\<close> prints it, and the agent is not called.
\<close>

lemma iteration_task_outside_event_loop:
  assumes "strip l \<noteq> []"
    and "lower (strip l) \<noteq> py ''exit''" "lower (strip l) \<noteq> py ''help''"
    and "lower (strip l) \<noteq> py ''status''"
    and "\<not> startswith (lower (strip l)) (py ''create '')"
    and "\<not> startswith (lower (strip l)) (py ''read '')"
    and "\<not> startswith (lower (strip l)) (py ''run '')"
    and "execute_autonomous C (strip l) w = (Inr result, w')"
  shows "iteration False C ws (Line l) w =
     (Input_prompt prompt # task_banner ws (strip l) @ [Call_execute_autonomous (strip l)]
        @ task_summary result @ [Print ([10, 10024] @ py '' Result: '' @ final_result result)],
      Continue, w')"
  using assms(8)
  by (simp add: iteration_Line dispatch_task [OF assms(1-7)] asyncio_run_def run_task_def)

lemma iteration_task_inside_event_loop:
  assumes "strip l \<noteq> []"
    and "lower (strip l) \<noteq> py ''exit''" "lower (strip l) \<noteq> py ''help''"
    and "lower (strip l) \<noteq> py ''status''"
    and "\<not> startswith (lower (strip l)) (py ''create '')"
    and "\<not> startswith (lower (strip l)) (py ''read '')"
    and "\<not> startswith (lower (strip l)) (py ''run '')"
  shows "iteration True C ws (Line l) w =
     ([Input_prompt prompt,
       Print (error_text (py ''asyncio.run() cannot be called from a running event loop''))],
      Continue, w)"
  by (simp add: iteration_Line dispatch_task [OF assms] asyncio_run_def)

text \<open>
  C1. The program started without arguments, on the input line \<open>build a calculator\<close>:
  the line is no command, so the claim has the agent's \<open>execute_autonomous\<close> called with
  it. The run prints the banner of interactive mode, prompts, prints the error line of the
  \<open>RuntimeError\<close> of \<open>asyncio.run\<close>, and waits for the next input: the trace holds no call
  of the agent.
\<close>

theorem C1_task_line_under_main_never_reaches_agent:
  "main mock_ok [py ''main.py''] [Line (py ''build a calculator'')] () =
     (interactive_banner
        @ [Input_prompt prompt,
           Print (error_text (py ''asyncio.run() cannot be called from a running event loop''))],
      Awaiting_input, ())"
proof -
  have s: "strip (py ''build a calculator'') = py ''build a calculator''"
    by (simp add: py_eval)
  have h: "strip (py ''build a calculator'') \<noteq> []"
    "lower (strip (py ''build a calculator'')) \<noteq> py ''exit''"
    "lower (strip (py ''build a calculator'')) \<noteq> py ''help''"
    "lower (strip (py ''build a calculator'')) \<noteq> py ''status''"
    "\<not> startswith (lower (strip (py ''build a calculator''))) (py ''create '')"
    "\<not> startswith (lower (strip (py ''build a calculator''))) (py ''read '')"
    "\<not> startswith (lower (strip (py ''build a calculator''))) (py ''run '')"
    unfolding s by (simp_all add: py_def lower_def lower_cp_def startswith_def)
  have i: "iteration True mock_ok (py ''/workspace'') (Line (py ''build a calculator'')) () =
     ([Input_prompt prompt,
       Print (error_text (py ''asyncio.run() cannot be called from a running event loop''))],
      Continue, ())"
    by (rule iteration_task_inside_event_loop [OF h])
  have "interactive_loop True mock_ok (py ''/workspace'') [Line (py ''build a calculator'')] () =
     ([Input_prompt prompt,
       Print (error_text (py ''asyncio.run() cannot be called from a running event loop''))],
      Awaiting_input, ())"
    unfolding interactive_loop.simps i by simp
  then show ?thesis
    unfolding main_def interactive_mode_def by simp
qed

end
